theory Spec2Isabelle
  imports Complex_Main "HOL-Library.Log_Nat"
begin

section \<open>Data model of the study-statistics routes\<close>

text \<open>
  The development embeds \<^verbatim>\<open>backend/routes/users.js\<close>: the handler of
  \<^verbatim>\<open>POST /study-time\<close> (the statistics engine) and the handler of
  \<^verbatim>\<open>GET /dashboard\<close> (the aggregator).

  The numbers of the statistics are integers held in JavaScript numbers, and a
  \<^verbatim>\<open>Date\<close> is its time value, the integer number of milliseconds since the epoch.
\<close>

type_synonym object_id = nat
type_synonym timestamp = int

record study_stats =
  totalStudyTime :: int
  sessionsCompleted :: int
  streak :: int
  achievements :: "string list"

text \<open>The user document, as far as the two handlers read or write it.\<close>

record user_doc =
  studyStats :: study_stats
  lastStudyDate :: "timestamp option"

section \<open>Numbers\<close>

text \<open>
  A JavaScript number is a double: it holds an integer exactly when the integer has at most
  53 significant bits. \<open>round_to_double\<close> is the integer that a double holds in place of
  an exact integer result: the nearest one with 53 significant bits, the one with the even
  significand when two are equally near. (No sum formed below comes near the largest
  double.)
\<close>

definition round_to_double :: "int \<Rightarrow> int" where
  "round_to_double n =
     (let a = \<bar>n\<bar>; e = nat (bitlen a - 53)
      in if e = 0 then n
         else
           (let q = a div 2 ^ e; r = a mod 2 ^ e; h = 2 ^ (e - 1);
                q' = (if h < r \<or> (r = h \<and> odd q) then q + 1 else q)
            in sgn n * (q' * 2 ^ e)))"

text \<open>\<^verbatim>\<open>a + b\<close> on two numbers that hold integers.\<close>

definition js_add :: "int \<Rightarrow> int \<Rightarrow> int" where
  "js_add a b = round_to_double (a + b)"

section \<open>The statistics engine\<close>

text \<open>\<^verbatim>\<open>1000 * 60 * 60 * 24\<close>, the divisor of line 143.\<close>

definition msPerDay :: int where
  "msPerDay = 1000 * 60 * 60 * 24"

text \<open>
  \<^verbatim>\<open>const lastStudyDate = user.lastStudyDate || new Date(0);\<close>
  \<^verbatim>\<open>const diffDays = Math.floor((today - lastStudyDate) / (1000 * 60 * 60 * 24));\<close>
  On integers \<open>div\<close> rounds towards minus infinity, as \<^verbatim>\<open>Math.floor\<close> of the quotient does.
\<close>

definition diffDays :: "timestamp \<Rightarrow> timestamp option \<Rightarrow> int" where
  "diffDays today lastDate =
     (today - (case lastDate of None \<Rightarrow> 0 | Some t \<Rightarrow> t)) div msPerDay"

text \<open>
  \<^verbatim>\<open>if (diffDays === 1) streak += 1; else if (diffDays > 1) streak = 1;\<close>
\<close>

definition update_streak :: "int \<Rightarrow> int \<Rightarrow> int" where
  "update_streak dd s = (if dd = 1 then s + 1 else if dd > 1 then 1 else s)"

text \<open>
  The three checks of lines 154 to 163, in the order of the source; each pushes its
  identifier onto the local array \<^verbatim>\<open>achievements\<close> when the threshold is met and the
  stored array does not include the identifier.
\<close>

definition check_achievements :: "study_stats \<Rightarrow> string list" where
  "check_achievements st =
     (if totalStudyTime st \<ge> 60 \<and> ''first-hour'' \<notin> set (achievements st)
      then [''first-hour''] else []) @
     (if streak st \<ge> 7 \<and> ''week-streak'' \<notin> set (achievements st)
      then [''week-streak''] else []) @
     (if sessionsCompleted st \<ge> 10 \<and> ''session-master'' \<notin> set (achievements st)
      then [''session-master''] else [])"

text \<open>
  Lines 138 to 165, from the statistics whose \<^verbatim>\<open>totalStudyTime\<close> has just been assigned:
  the session counter, the streak, \<^verbatim>\<open>lastStudyDate\<close> and the achievements. The result is the
  updated document and the array answered as \<^verbatim>\<open>newAchievements\<close>. The two counters grow
  by one for each call or day and stay far below \<open>2 ^ 53\<close>, where adding 1 is exact.
\<close>

definition after_total :: "user_doc \<Rightarrow> int \<Rightarrow> timestamp \<Rightarrow> user_doc \<times> string list" where
  "after_total u newTotal today =
     (let st1 = (studyStats u)\<lparr>totalStudyTime := newTotal,
                               sessionsCompleted := sessionsCompleted (studyStats u) + 1\<rparr>;
          st2 = st1\<lparr>streak := update_streak (diffDays today (lastStudyDate u)) (streak st1)\<rparr>;
          new = check_achievements st2;
          st3 = st2\<lparr>achievements := achievements st2 @ new\<rparr>
      in (u\<lparr>studyStats := st3, lastStudyDate := Some today\<rparr>, new))"

text \<open>
  Lines 137 to 165 for a duration that is a number: \<^verbatim>\<open>totalStudyTime += duration\<close> is the
  addition of two numbers. \<open>today\<close> is the clock reading of line 141.
\<close>

definition recordStudyTime :: "user_doc \<Rightarrow> int \<Rightarrow> timestamp \<Rightarrow> user_doc \<times> string list" where
  "recordStudyTime u duration today =
     after_total u (js_add (totalStudyTime (studyStats u)) duration) today"

section \<open>The request and its validation\<close>

text \<open>
  The value of a field of the JSON body, after parsing. A number is given by the rational
  that it equals.
\<close>

datatype jsvalue =
    JUndefined
  | JNull
  | JBool bool
  | JNum rat
  | JStr string
  | JArr "jsvalue list"
  | JObj "(string \<times> jsvalue) list"

definition is_digit :: "char \<Rightarrow> bool" where
  "is_digit c = (c \<in> set ''0123456789'')"

definition all_digits :: "string \<Rightarrow> bool" where
  "all_digits s = (s \<noteq> [] \<and> list_all is_digit s)"

definition digit_value :: "char \<Rightarrow> int" where
  "digit_value c = int (of_char c) - 48"

definition digits_value :: "string \<Rightarrow> int" where
  "digits_value s = foldl (\<lambda>a c. 10 * a + digit_value c) 0 s"

text \<open>The pattern \<^verbatim>\<open>/^[-+]?[0-9]+$/\<close> that the validator tests a string against.\<close>

fun int_pattern :: "string \<Rightarrow> bool" where
  "int_pattern [] = False"
| "int_pattern (c # cs) =
     (if c = CHR ''-'' \<or> c = CHR ''+'' then all_digits cs else all_digits (c # cs))"

text \<open>The number that a string matching the pattern converts to in the comparison with the minimum.\<close>

fun string_number :: "string \<Rightarrow> int" where
  "string_number [] = 0"
| "string_number (c # cs) =
     (if c = CHR ''-'' then - digits_value cs
      else if c = CHR ''+'' then digits_value cs
      else digits_value (c # cs))"

text \<open>
  The integer spelled by the string that JavaScript turns a value into
  (\<^verbatim>\<open>String(v)\<close>), when that string matches the pattern. A number is written with digits
  only when it is an integer below \<open>10 ^ 21\<close> in magnitude (from there on the string has an
  exponent, as in \<^verbatim>\<open>1e+21\<close>). An array is written as its items joined by commas, so only
  an array of one item can match. Booleans, \<^verbatim>\<open>null\<close>, the absent value and plain objects
  are written with letters or as the empty string.
\<close>

fun string_int :: "jsvalue \<Rightarrow> int option" where
  "string_int (JNum q) =
     (if of_int \<lfloor>q\<rfloor> = q \<and> \<bar>q\<bar> < 10 ^ 21 then Some \<lfloor>q\<rfloor> else None)"
| "string_int (JStr s) = (if int_pattern s then Some (string_number s) else None)"
| "string_int (JArr [v]) = string_int v"
| "string_int v = None"

text \<open>
  \<^verbatim>\<open>body('duration').isInt({ min: 1 })\<close> (line 124). The library (express-validator) is
  not part of the sources; the check is modelled as the library performs it. A value that is
  an array is checked item by item, so the empty array passes; any other value is checked
  itself. The value checked is turned into a string, which must match the pattern and spell
  a number not below the minimum; for an array met at this point the string is that of its
  first item.
\<close>

definition validator_int :: "jsvalue \<Rightarrow> int option" where
  "validator_int v = (case v of JArr (x # xs) \<Rightarrow> string_int x | _ \<Rightarrow> string_int v)"

definition item_ok :: "int \<Rightarrow> jsvalue \<Rightarrow> bool" where
  "item_ok m v = (case validator_int v of None \<Rightarrow> False | Some n \<Rightarrow> m \<le> n)"

definition isInt :: "int \<Rightarrow> jsvalue \<Rightarrow> bool" where
  "isInt m v = (case v of JArr vs \<Rightarrow> list_all (item_ok m) vs | _ \<Rightarrow> item_ok m v)"

section \<open>The store and the responses\<close>

datatype http_error =
    ValidationErrors
  | UserNotFound
  | ServerError string

record participant =
  user :: object_id
  duration :: "int option"

record person_name =
  firstName :: "string option"
  lastName :: "string option"

text \<open>
  A session document after \<^verbatim>\<open>populate\<close>: \<open>group_name\<close> is \<^verbatim>\<open>session.group?.name\<close> and
  \<open>host_name\<close> the populated host, each \<open>None\<close> when the reference leads nowhere.
\<close>

record study_session =
  session_id :: object_id
  title :: string
  group_name :: "string option"
  host :: object_id
  host_name :: "person_name option"
  scheduledStart :: timestamp
  actualEnd :: "timestamp option"
  status :: string
  participants :: "participant list"

record study_group =
  group_id :: object_id
  name :: string
  subject :: string
  members :: "object_id list"
  isActive :: bool
  memberCount :: "int option"
  updatedAt :: timestamp

record database =
  users :: "object_id \<rightharpoonup> user_doc"
  groups :: "study_group list"
  sessions :: "study_session list"

section \<open>The handler of POST /study-time\<close>

record study_time_request =
  auth_user :: object_id
  body_duration :: jsvalue

text \<open>
  \<^verbatim>\<open>user.studyStats.totalStudyTime += duration\<close> (line 137) for the value destructured from the
  body. For a number \<^verbatim>\<open>+=\<close> adds. For a string or an array (the other values that can pass
  the validation) \<^verbatim>\<open>+=\<close> turns both sides into strings and concatenates them, and the
  schema of the user model (not part of the sources) decides what the field holds
  afterwards. That decision is the parameter \<open>assignOther\<close>: the field's new value, or
  \<open>None\<close> when the document cannot be saved with it. A number that is no integer does not
  pass the validation.
\<close>

definition add_assign ::
    "(int \<Rightarrow> jsvalue \<Rightarrow> int option) \<Rightarrow> int \<Rightarrow> jsvalue \<Rightarrow> int option" where
  "add_assign assignOther n v =
     (case v of
        JNum q \<Rightarrow> if of_int \<lfloor>q\<rfloor> = q then Some (js_add n \<lfloor>q\<rfloor>) else None
      | _ \<Rightarrow> assignOther n v)"

text \<open>
  The handler (lines 123 to 178). \<open>now\<close> is the clock reading of line 141. A failed
  validation answers 400 before anything is read. \<^verbatim>\<open>User.findById\<close> answers \<^verbatim>\<open>null\<close> for
  an identifier without a document; line 137 then throws a \<^verbatim>\<open>TypeError\<close>, which the
  \<^verbatim>\<open>catch\<close> of line 174 turns into the answer 500. \<^verbatim>\<open>user.save()\<close> writes the document
  back; failures of the storage layer itself are not modelled.
\<close>

definition study_time ::
    "(int \<Rightarrow> jsvalue \<Rightarrow> int option) \<Rightarrow> database \<Rightarrow> study_time_request \<Rightarrow> timestamp
      \<Rightarrow> (http_error + study_stats \<times> string list) \<times> database" where
  "study_time assignOther db req now =
     (if \<not> isInt 1 (body_duration req) then (Inl ValidationErrors, db)
      else
        (case users db (auth_user req) of
           None \<Rightarrow> (Inl (ServerError ''Server error updating study time''), db)
         | Some u \<Rightarrow>
             (case add_assign assignOther (totalStudyTime (studyStats u)) (body_duration req) of
                None \<Rightarrow> (Inl (ServerError ''Server error updating study time''), db)
              | Some t \<Rightarrow>
                  (let (u', new) = after_total u t now
                   in (Inr (studyStats u', new),
                       db\<lparr>users := (users db)(auth_user req \<mapsto> u')\<rparr>)))))"

text \<open>
  The handler of \<^verbatim>\<open>GET /profile/:userId\<close> (lines 11 to 28), as far as the lookup goes: a
  missing document is answered with 404.
\<close>

definition get_profile :: "database \<Rightarrow> object_id \<Rightarrow> http_error + user_doc" where
  "get_profile db userId =
     (case users db userId of None \<Rightarrow> Inl UserNotFound | Some u \<Rightarrow> Inr u)"

section \<open>The handler of GET /dashboard\<close>

text \<open>
  Dates. The methods \<^verbatim>\<open>setHours\<close>, \<^verbatim>\<open>setDate\<close>, \<^verbatim>\<open>getDate\<close> and \<^verbatim>\<open>getDay\<close> work
  on the local time of the server's zone. A zone is described around the clock reading by
  its offset from UTC in milliseconds before a change, the instant of the change and the
  offset from then on; a zone without a change has the same offset twice. (Within the two
  weeks around the clock reading that the dates of the handler span, zones change their
  offset at most once.)
\<close>

record zone =
  off_before :: int
  change_at :: timestamp
  off_after :: int

definition offset_at :: "zone \<Rightarrow> timestamp \<Rightarrow> int" where
  "offset_at z t = (if t < change_at z then off_before z else off_after z)"

text \<open>The local time value of an instant: \<^verbatim>\<open>LocalTime(t)\<close>.\<close>

definition local_time :: "zone \<Rightarrow> timestamp \<Rightarrow> int" where
  "local_time z t = t + offset_at z t"

text \<open>
  The instant of a local time value: \<^verbatim>\<open>UTC(t)\<close>. A local time that the clocks show twice
  (the offset decreases) or never (the offset increases) is read with the offset before the
  change, as ECMAScript prescribes.
\<close>

definition to_utc :: "zone \<Rightarrow> int \<Rightarrow> timestamp" where
  "to_utc z l =
     (if l - off_before z < change_at z \<or> l - off_after z < change_at z
      then l - off_before z
      else l - off_after z)"

text \<open>\<^verbatim>\<open>d.setHours(0, 0, 0, 0)\<close>: the local day of the instant, at time 0 within the day.\<close>

definition startOfDay :: "zone \<Rightarrow> timestamp \<Rightarrow> timestamp" where
  "startOfDay z t = to_utc z (local_time z t - local_time z t mod msPerDay)"

text \<open>\<^verbatim>\<open>getDay()\<close>: 0 is Sunday; the epoch was a Thursday.\<close>

definition getDay :: "zone \<Rightarrow> timestamp \<Rightarrow> int" where
  "getDay z t = (local_time z t div msPerDay + 4) mod 7"

text \<open>
  \<^verbatim>\<open>d.setDate(d.getDate() + k)\<close>: the local day moves by \<open>k\<close>, the local time within the
  day stays.
\<close>

definition addDays :: "zone \<Rightarrow> timestamp \<Rightarrow> int \<Rightarrow> timestamp" where
  "addDays z t k = to_utc z (local_time z t + k * msPerDay)"

text \<open>Lines 211 to 214 and 228 to 231.\<close>

definition today_start :: "zone \<Rightarrow> timestamp \<Rightarrow> timestamp" where
  "today_start tz now = startOfDay tz now"

definition tomorrow_start :: "zone \<Rightarrow> timestamp \<Rightarrow> timestamp" where
  "tomorrow_start tz now = addDays tz (today_start tz now) 1"

definition week_start :: "zone \<Rightarrow> timestamp \<Rightarrow> timestamp" where
  "week_start tz now =
     addDays tz (today_start tz now) (- getDay tz (today_start tz now))"

definition week_end :: "zone \<Rightarrow> timestamp \<Rightarrow> timestamp" where
  "week_end tz now = addDays tz (week_start tz now) 7"

text \<open>
  The queries, as filters over the stored documents. \<^verbatim>\<open>'participants.user': id\<close> holds of
  a session one of whose participants is the user.
\<close>

definition is_participant :: "object_id \<Rightarrow> study_session \<Rightarrow> bool" where
  "is_participant uid s = (uid \<in> set (map user (participants s)))"

definition find_recent_groups :: "study_group list \<Rightarrow> object_id \<Rightarrow> study_group list" where
  "find_recent_groups gs uid =
     take 5 (sort_key (\<lambda>g. - updatedAt g)
       (filter (\<lambda>g. uid \<in> set (members g) \<and> isActive g) gs))"

definition find_upcoming_sessions ::
    "study_session list \<Rightarrow> object_id \<Rightarrow> timestamp \<Rightarrow> study_session list" where
  "find_upcoming_sessions ss uid now =
     take 5 (sort_key scheduledStart
       (filter (\<lambda>s. (host s = uid \<or> is_participant uid s) \<and> now \<le> scheduledStart s \<and>
                     status s \<in> set [''scheduled'', ''active'']) ss))"

definition in_window :: "timestamp option \<Rightarrow> timestamp \<Rightarrow> timestamp \<Rightarrow> bool" where
  "in_window e lo hi = (case e of None \<Rightarrow> False | Some t \<Rightarrow> lo \<le> t \<and> t < hi)"

definition find_completed ::
    "study_session list \<Rightarrow> object_id \<Rightarrow> timestamp \<Rightarrow> timestamp \<Rightarrow> study_session list" where
  "find_completed ss uid lo hi =
     filter (\<lambda>s. is_participant uid s \<and> in_window (actualEnd s) lo hi \<and>
                  status s = ''completed'') ss"

text \<open>
  The body of the two reductions (lines 222 to 225 and 239 to 242):
  \<^verbatim>\<open>participants.find(p => p.user.toString() === id.toString())\<close>, then
  \<^verbatim>\<open>participant?.duration || 0\<close>.
\<close>

definition participant_minutes :: "object_id \<Rightarrow> study_session \<Rightarrow> int" where
  "participant_minutes uid s =
     (case find (\<lambda>p. user p = uid) (participants s) of
        None \<Rightarrow> 0
      | Some p \<Rightarrow> (case duration p of None \<Rightarrow> 0 | Some d \<Rightarrow> d))"

definition progress :: "object_id \<Rightarrow> study_session list \<Rightarrow> int" where
  "progress uid ss = foldl (\<lambda>total s. total + participant_minutes uid s) 0 ss"

record group_summary =
  gs_id :: object_id
  gs_name :: string
  gs_subject :: string
  gs_memberCount :: int
  gs_lastActivity :: timestamp

record session_summary =
  ss_id :: object_id
  ss_title :: string
  ss_groupName :: string
  ss_time :: timestamp
  ss_host :: string

record dashboard_stats =
  ds_totalStudyTime :: int
  ds_sessionsCompleted :: int
  ds_currentStreak :: int
  ds_achievements :: "string list"

record dashboard_data =
  recentGroups :: "group_summary list"
  upcomingSessions :: "session_summary list"
  stats :: dashboard_stats
  todayProgress :: int
  weekProgress :: int
  weeklyGoal :: int

definition format_group :: "study_group \<Rightarrow> group_summary" where
  "format_group g =
     \<lparr>gs_id = group_id g, gs_name = name g, gs_subject = subject g,
      gs_memberCount = (case memberCount g of None \<Rightarrow> 0 | Some n \<Rightarrow> n),
      gs_lastActivity = updatedAt g\<rparr>"

text \<open>\<^verbatim>\<open>String.prototype.trim\<close> on the white space of ASCII.\<close>

definition is_space :: "char \<Rightarrow> bool" where
  "is_space c = (c \<in> set [CHR '' '', CHR 0x09, CHR 0x0A, CHR 0x0B, CHR 0x0C, CHR 0x0D])"

definition trim :: "string \<Rightarrow> string" where
  "trim s = rev (dropWhile is_space (rev (dropWhile is_space s)))"

text \<open>\<^verbatim>\<open>x || ''\<close> for an optional string.\<close>

definition or_empty :: "string option \<Rightarrow> string" where
  "or_empty x = (case x of None \<Rightarrow> [] | Some s \<Rightarrow> s)"

definition format_session :: "study_session \<Rightarrow> session_summary" where
  "format_session s =
     \<lparr>ss_id = session_id s, ss_title = title s,
      ss_groupName = (if or_empty (group_name s) = [] then ''Unknown Group''
                      else or_empty (group_name s)),
      ss_time = scheduledStart s,
      ss_host = trim (or_empty (case host_name s of None \<Rightarrow> None | Some h \<Rightarrow> firstName h)
                      @ '' '' @
                      or_empty (case host_name s of None \<Rightarrow> None | Some h \<Rightarrow> lastName h))\<rparr>"

text \<open>
  The handler (lines 181 to 281); \<open>now\<close> stands for both clock readings (lines 201 and
  211). The selected user document is first dereferenced when the answer is built (line
  266): for an identifier without a document that throws and the answer is 500.
\<close>

definition dashboard :: "zone \<Rightarrow> database \<Rightarrow> object_id \<Rightarrow> timestamp \<Rightarrow> http_error + dashboard_data" where
  "dashboard tz db uid now =
     (let recent = find_recent_groups (groups db) uid;
          upcoming = find_upcoming_sessions (sessions db) uid now;
          todaysSessions =
            find_completed (sessions db) uid (today_start tz now) (tomorrow_start tz now);
          weekSessions =
            find_completed (sessions db) uid (week_start tz now) (week_end tz now)
      in case users db uid of
           None \<Rightarrow> Inl (ServerError ''Server error fetching dashboard data'')
         | Some u \<Rightarrow>
             Inr \<lparr>recentGroups = map format_group recent,
                  upcomingSessions = map format_session upcoming,
                  stats = \<lparr>ds_totalStudyTime = totalStudyTime (studyStats u),
                           ds_sessionsCompleted = sessionsCompleted (studyStats u),
                           ds_currentStreak = streak (studyStats u),
                           ds_achievements = achievements (studyStats u)\<rparr>,
                  todayProgress = progress uid todaysSessions,
                  weekProgress = progress uid weekSessions,
                  weeklyGoal = 300\<rparr>)"

section \<open>Notions used to state the properties\<close>



text \<open>The thresholds, each against the given statistics, in the order of the checks.\<close>

definition thresholds :: "study_stats \<Rightarrow> (string \<times> bool) list" where
  "thresholds st =
     [(''first-hour'', 60 \<le> totalStudyTime st),
      (''week-streak'', 7 \<le> streak st),
      (''session-master'', 10 \<le> sessionsCompleted st)]"

text \<open>
  What a body value is as a number: a number is itself, and a string is the decimal numeral
  it spells (an optional sign, digits, and optionally a point followed by digits).
  Everything else, the absent value included, is no number.
\<close>

definition unsigned_decimal :: "string \<Rightarrow> rat option" where
  "unsigned_decimal s =
     (let ip = takeWhile (\<lambda>c. c \<noteq> CHR ''.'') s;
          rest = dropWhile (\<lambda>c. c \<noteq> CHR ''.'') s
      in if \<not> all_digits ip then None
         else if rest = [] then Some (of_int (digits_value ip))
         else if all_digits (tl rest)
           then Some (of_int (digits_value ip) +
                      of_int (digits_value (tl rest)) / 10 ^ length (tl rest))
           else None)"

fun decimal_numeral :: "string \<Rightarrow> rat option" where
  "decimal_numeral [] = None"
| "decimal_numeral (c # cs) =
     (if c = CHR ''-'' then map_option uminus (unsigned_decimal cs)
      else if c = CHR ''+'' then unsigned_decimal cs
      else unsigned_decimal (c # cs))"

fun denoted_number :: "jsvalue \<Rightarrow> rat option" where
  "denoted_number (JNum q) = Some q"
| "denoted_number (JStr s) = decimal_numeral s"
| "denoted_number v = None"

text \<open>A duration that is missing, not a number, or less than 1.\<close>

definition invalid_duration :: "jsvalue \<Rightarrow> bool" where
  "invalid_duration v = (case denoted_number v of None \<Rightarrow> True | Some q \<Rightarrow> q < 1)"

text \<open>A sequence of further calls, each with its duration and clock reading.\<close>

definition run_calls :: "user_doc \<Rightarrow> (int \<times> timestamp) list \<Rightarrow> user_doc" where
  "run_calls u cs = foldl (\<lambda>v (d, t). fst (recordStudyTime v d t)) u cs"

text \<open>Sample documents.\<close>

definition example_user :: user_doc where
  "example_user =
     \<lparr>studyStats = \<lparr>totalStudyTime = 55, sessionsCompleted = 9, streak = 6, achievements = []\<rparr>,
      lastStudyDate = Some 1700000000000\<rparr>"

definition example_db :: database where
  "example_db = \<lparr>users = [7 \<mapsto> example_user], groups = [], sessions = []\<rparr>"

definition utc :: zone where
  "utc = \<lparr>off_before = 0, change_at = 0, off_after = 0\<rparr>"

text \<open>
  New York around 5 November 2023: four hours behind UTC until 06:00 UTC of that day, five
  hours behind from then on.
\<close>

definition new_york :: zone where
  "new_york = \<lparr>off_before = - 14400000, change_at = 1699164000000, off_after = - 18000000\<rparr>"

definition big_total_db :: database where
  "big_total_db =
     \<lparr>users = [7 \<mapsto> example_user\<lparr>studyStats :=
        (studyStats example_user)\<lparr>totalStudyTime := 9007199254740992\<rparr>\<rparr>],
      groups = [], sessions = []\<rparr>"

definition completed_session ::
    "object_id \<Rightarrow> timestamp \<Rightarrow> participant list \<Rightarrow> study_session" where
  "completed_session i e ps =
     \<lparr>session_id = i, title = ''Algebra'', group_name = Some ''Maths'', host = 3,
      host_name = Some \<lparr>firstName = Some ''Ada'', lastName = None\<rparr>,
      scheduledStart = e - 3600000, actualEnd = Some e, status = ''completed'',
      participants = ps\<rparr>"

definition scenario_db :: database where
  "scenario_db =
     \<lparr>users = [7 \<mapsto> example_user],
      groups = [],
      sessions =
        [completed_session 1 1699952400000
           [\<lparr>user = 3, duration = Some 50\<rparr>, \<lparr>user = 7, duration = Some 20\<rparr>],
         completed_session 2 1699916400000 [\<lparr>user = 7, duration = Some 30\<rparr>],
         completed_session 3 1699956000000
           [\<lparr>user = 7, duration = Some 15\<rparr>, \<lparr>user = 3, duration = Some 15\<rparr>],
         completed_session 4 1699956000000 [\<lparr>user = 3, duration = Some 40\<rparr>]]\<rparr>"

section \<open>Properties of the numbers\<close>

lemma bitlen_le_53:
  assumes "0 \<le> a" and "a < 2 ^ 53"
  shows "bitlen a \<le> 53"
proof (cases "a = 0")
  case True
  then show ?thesis by simp
next
  case False
  with assms have "0 < a" by simp
  from bitlen_bounds [OF this] assms(2) have "(2::int) ^ nat (bitlen a - 1) < 2 ^ 53"
    by linarith
  then have "nat (bitlen a - 1) < 53"
    by (rule power_less_imp_less_exp [rotated]) simp
  then show ?thesis by simp
qed

lemma round_small: "\<bar>n\<bar> < 2 ^ 53 \<Longrightarrow> round_to_double n = n"
  using bitlen_le_53 [of "\<bar>n\<bar>"] by (simp add: round_to_double_def Let_def)

lemma bitlen_2_53: "bitlen 9007199254740992 = 54"
  using bitlen_pow2 [of 1 53] by (simp add: compute_bitlen [of 1])

lemma round_2_53:
  "round_to_double 9007199254740992 = 9007199254740992"
  "round_to_double (- 9007199254740992) = - 9007199254740992"
  by (simp_all add: round_to_double_def Let_def bitlen_2_53)

lemma round_safe:
  assumes "\<bar>n\<bar> \<le> 2 ^ 53"
  shows "round_to_double n = n"
proof -
  from assms
  have "\<bar>n\<bar> < 9007199254740992 \<or> n = 9007199254740992 \<or> n = - 9007199254740992"
    by simp arith
  then show ?thesis
    using round_small [of n] by (auto simp add: round_2_53)
qed

lemma js_add_safe: "\<bar>a + b\<bar> \<le> 2 ^ 53 \<Longrightarrow> js_add a b = a + b"
  by (simp add: js_add_def round_safe)

section \<open>Properties of the statistics engine\<close>

lemma recordStudyTime_total:
  "totalStudyTime (studyStats (fst (recordStudyTime u d today))) =
     js_add (totalStudyTime (studyStats u)) d"
  by (simp add: recordStudyTime_def after_total_def Let_def)

lemma recordStudyTime_sessions:
  "sessionsCompleted (studyStats (fst (recordStudyTime u d today))) =
     sessionsCompleted (studyStats u) + 1"
  by (simp add: recordStudyTime_def after_total_def Let_def)

lemma recordStudyTime_streak:
  "streak (studyStats (fst (recordStudyTime u d today))) =
     update_streak (diffDays today (lastStudyDate u)) (streak (studyStats u))"
  by (simp add: recordStudyTime_def after_total_def Let_def)

lemma recordStudyTime_lastStudyDate:
  "lastStudyDate (fst (recordStudyTime u d today)) = Some today"
  by (simp add: recordStudyTime_def after_total_def Let_def)

lemma recordStudyTime_new:
  "snd (recordStudyTime u d today) =
     check_achievements
       ((studyStats u)\<lparr>totalStudyTime := js_add (totalStudyTime (studyStats u)) d,
                       sessionsCompleted := sessionsCompleted (studyStats u) + 1,
                       streak := update_streak (diffDays today (lastStudyDate u))
                                   (streak (studyStats u))\<rparr>)"
  by (simp add: recordStudyTime_def after_total_def Let_def)

lemma recordStudyTime_achievements:
  "achievements (studyStats (fst (recordStudyTime u d today))) =
     achievements (studyStats u) @ snd (recordStudyTime u d today)"
  by (simp add: recordStudyTime_def after_total_def Let_def check_achievements_def)

lemma diffDays_floor:
  "diffDays today lastDate =
     \<lfloor>real_of_int (today - (case lastDate of None \<Rightarrow> 0 | Some t \<Rightarrow> t)) / (1000 * 60 * 60 * 24)\<rfloor>"
  using floor_divide_of_int_eq [of "today - (case lastDate of None \<Rightarrow> 0 | Some t \<Rightarrow> t)"
      86400000, where ?'a = real]
  by (simp add: diffDays_def msPerDay_def del: of_int_diff)



lemma check_achievements_filter:
  "check_achievements st =
     map fst (filter (\<lambda>(a, met). met \<and> a \<notin> set (achievements st)) (thresholds st))"
  by (simp add: check_achievements_def thresholds_def)

lemma check_achievements_fresh:
  "a \<in> set (achievements st) \<Longrightarrow> a \<notin> set (check_achievements st)"
  by (auto simp add: check_achievements_def)

lemma check_achievements_distinct: "distinct (check_achievements st)"
  by (auto simp add: check_achievements_def)

lemma recordStudyTime_fresh:
  "a \<in> set (achievements (studyStats u)) \<Longrightarrow> a \<notin> set (snd (recordStudyTime u d today))"
  unfolding recordStudyTime_new by (rule check_achievements_fresh) simp

lemma recordStudyTime_keeps:
  "a \<in> set (achievements (studyStats u)) \<Longrightarrow>
     a \<in> set (achievements (studyStats (fst (recordStudyTime u d t))))"
  by (simp add: recordStudyTime_achievements)

lemma run_calls_keeps:
  "a \<in> set (achievements (studyStats u)) \<Longrightarrow>
     a \<in> set (achievements (studyStats (run_calls u cs)))"
proof (induction cs arbitrary: u)
  case Nil
  then show ?case by (simp add: run_calls_def)
next
  case (Cons c cs)
  obtain d t where c: "c = (d, t)" by (cases c)
  have "a \<in> set (achievements (studyStats (fst (recordStudyTime u d t))))"
    using Cons.prems by (rule recordStudyTime_keeps)
  then have "a \<in> set (achievements (studyStats (run_calls (fst (recordStudyTime u d t)) cs)))"
    by (rule Cons.IH)
  then show ?case by (simp add: run_calls_def c)
qed

section \<open>Properties of the handler of POST /study-time\<close>

text \<open>The validation of the values that are no arrays.\<close>

lemma isInt_scalar:
  "isInt m JUndefined = False"
  "isInt m JNull = False"
  "isInt m (JBool b) = False"
  "isInt m (JNum q) = (of_int \<lfloor>q\<rfloor> = q \<and> \<bar>q\<bar> < 10 ^ 21 \<and> of_int m \<le> q)"
  "isInt m (JStr s) = (int_pattern s \<and> m \<le> string_number s)"
  "isInt m (JObj kvs) = False"
  by (auto simp add: isInt_def item_ok_def validator_int_def le_floor_iff)

lemma isInt_of_int: "isInt m (JNum (of_int d)) = (\<bar>d\<bar> < 10 ^ 21 \<and> m \<le> d)"
proof -
  have "(\<bar>rat_of_int d\<bar> < 10 ^ 21) = (\<bar>d\<bar> < 10 ^ 21)"
    by (metis of_int_abs of_int_less_iff of_int_numeral of_int_power)
  then show ?thesis
    by (simp add: isInt_scalar)
qed

lemma isInt_array: "isInt m (JArr vs) = list_all (item_ok m) vs"
  by (simp add: isInt_def)

lemma study_time_number:
  assumes "1 \<le> d" and "d < 10 ^ 21" and "users db (auth_user req) = Some u"
    and "body_duration req = JNum (of_int d)"
  shows "study_time assignOther db req now =
           (Inr (studyStats (fst (recordStudyTime u d now)), snd (recordStudyTime u d now)),
            db\<lparr>users := (users db)(auth_user req \<mapsto> fst (recordStudyTime u d now))\<rparr>)"
proof -
  from assms(1,2) have "isInt 1 (JNum (of_int d))"
    unfolding isInt_of_int by simp
  with assms(3,4) show ?thesis
    by (simp add: study_time_def add_assign_def recordStudyTime_def split: prod.splits)
qed

lemma example_lookup: "users example_db 7 = Some example_user"
  by (simp add: example_db_def)

lemma digits_no_point: "list_all is_digit s \<Longrightarrow> takeWhile (\<lambda>c. c \<noteq> CHR ''.'') s = s"
  by (induction s) (auto simp add: is_digit_def)

lemma unsigned_decimal_digits:
  assumes "all_digits s"
  shows "unsigned_decimal s = Some (of_int (digits_value s))"
proof -
  from assms have t: "takeWhile (\<lambda>c. c \<noteq> CHR ''.'') s = s"
    by (simp add: all_digits_def digits_no_point)
  then have d: "dropWhile (\<lambda>c. c \<noteq> CHR ''.'') s = []"
    by (metis append_self_conv takeWhile_dropWhile_id)
  show ?thesis
    unfolding unsigned_decimal_def Let_def t d using assms by simp
qed

lemma all_digits_no_sign:
  "all_digits (c # cs) \<Longrightarrow> c \<noteq> CHR ''-'' \<and> c \<noteq> CHR ''+''"
  by (auto simp add: all_digits_def is_digit_def)

lemma int_pattern_decimal:
  "int_pattern s \<Longrightarrow> decimal_numeral s = Some (of_int (string_number s))"
  by (cases s) (auto simp add: unsigned_decimal_digits split: if_splits)

lemma isInt_denoted:
  assumes "isInt m v" and "\<And>vs. v \<noteq> JArr vs"
  shows "\<exists>q. denoted_number v = Some q \<and> of_int m \<le> q"
  using assms by (cases v) (auto simp add: isInt_scalar int_pattern_decimal)

text \<open>Apart from arrays, every invalid duration is answered with the validation errors.\<close>

lemma invalid_scalar_rejected:
  assumes "invalid_duration (body_duration req)" and "\<And>vs. body_duration req \<noteq> JArr vs"
  shows "study_time assignOther db req now = (Inl ValidationErrors, db)"
proof -
  have "\<not> isInt 1 (body_duration req)"
    using isInt_denoted [of 1 "body_duration req"] assms
    by (auto simp add: invalid_duration_def)
  then show ?thesis by (simp add: study_time_def)
qed

section \<open>The claims about the statistics engine\<close>

text \<open>
  Claim C1 says that every integer duration of at least 1 adds itself to \<open>totalStudyTime\<close>.
  It does not: the duration \<open>10 ^ 21\<close> is answered with the validation errors and nothing
  is added, and for a \<open>totalStudyTime\<close> of \<open>2 ^ 53\<close> the duration 1 is accepted and the
  stored \<open>totalStudyTime\<close> is still \<open>2 ^ 53\<close>.
\<close>

theorem unbounded_duration_counterexample:
  "study_time (\<lambda>n v. None) example_db \<lparr>auth_user = 7, body_duration = JNum (10 ^ 21)\<rparr>
     1700086400000 = (Inl ValidationErrors, example_db) \<and>
   fst (study_time (\<lambda>n v. None) big_total_db \<lparr>auth_user = 7, body_duration = JNum 1\<rparr>
     1700086400000) =
     Inr (\<lparr>totalStudyTime = 9007199254740992, sessionsCompleted = 10, streak = 7,
            achievements = [''first-hour'', ''week-streak'', ''session-master'']\<rparr>,
          [''first-hour'', ''week-streak'', ''session-master'']) \<and>
   totalStudyTime (studyStats (the (users big_total_db 7))) = 9007199254740992"
proof -
  have "\<not> isInt 1 (JNum (10 ^ 21))"
    by (simp add: isInt_scalar)
  then have 1: "study_time (\<lambda>n v. None) example_db
      \<lparr>auth_user = 7, body_duration = JNum (10 ^ 21)\<rparr> 1700086400000 =
      (Inl ValidationErrors, example_db)"
    by (simp add: study_time_def)
  have r: "js_add 9007199254740992 1 = 9007199254740992"
    by code_simp
  have 2: "fst (study_time (\<lambda>n v. None) big_total_db \<lparr>auth_user = 7, body_duration = JNum 1\<rparr>
     1700086400000) =
     Inr (\<lparr>totalStudyTime = 9007199254740992, sessionsCompleted = 10, streak = 7,
            achievements = [''first-hour'', ''week-streak'', ''session-master'']\<rparr>,
          [''first-hour'', ''week-streak'', ''session-master''])"
    by (simp add: study_time_def isInt_scalar add_assign_def big_total_db_def example_user_def
        after_total_def Let_def r update_streak_def diffDays_def msPerDay_def
        check_achievements_def)
  have 3: "totalStudyTime (studyStats (the (users big_total_db 7))) = 9007199254740992"
    by (simp add: big_total_db_def)
  from 1 2 3 show ?thesis by blast
qed

text \<open>
  Claim C1, amended. For every stored user and every integer duration of at least 1 and
  below \<open>10 ^ 21\<close> such that \<open>totalStudyTime\<close> plus the duration is at most \<open>2 ^ 53\<close> in
  magnitude, the handler of \<^verbatim>\<open>POST /study-time\<close> answers and stores the result of
  \<open>recordStudyTime\<close>, in which \<open>totalStudyTime\<close> has grown by exactly the duration and
  \<open>sessionsCompleted\<close> by exactly 1, whatever the clock, the streak and the achievements are.
\<close>

theorem study_time_increments:
  assumes "1 \<le> d" and "d < 10 ^ 21"
    and "\<bar>totalStudyTime (studyStats u) + d\<bar> \<le> 2 ^ 53"
    and "users db (auth_user req) = Some u"
    and "body_duration req = JNum (of_int d)"
  shows "study_time assignOther db req now =
           (Inr (studyStats (fst (recordStudyTime u d now)), snd (recordStudyTime u d now)),
            db\<lparr>users := (users db)(auth_user req \<mapsto> fst (recordStudyTime u d now))\<rparr>) \<and>
         totalStudyTime (studyStats (fst (recordStudyTime u d now))) =
           totalStudyTime (studyStats u) + d \<and>
         sessionsCompleted (studyStats (fst (recordStudyTime u d now))) =
           sessionsCompleted (studyStats u) + 1"
  using study_time_number [OF assms(1,2,4,5), of assignOther now] js_add_safe [OF assms(3)]
  by (simp add: recordStudyTime_total recordStudyTime_sessions)

theorem study_time_increments_witness:
  "(\<exists>st new db'.
      study_time (\<lambda>n v. None) example_db \<lparr>auth_user = 7, body_duration = JNum 10\<rparr> 1700086400000
        = (Inr (st, new), db') \<and>
      totalStudyTime st = 65 \<and> sessionsCompleted st = 10)"
proof -
  have "(1::int) \<le> 10" "(10::int) < 10 ^ 21"
    "\<bar>totalStudyTime (studyStats example_user) + 10\<bar> \<le> 2 ^ 53"
    by (simp_all add: example_user_def)
  moreover have "users example_db (auth_user \<lparr>auth_user = 7, body_duration = JNum 10\<rparr>) = Some example_user"
    by (simp add: example_lookup)
  moreover have "body_duration \<lparr>auth_user = 7, body_duration = JNum 10\<rparr> = JNum (of_int 10)"
    by simp
  ultimately show ?thesis
    using study_time_increments [of 10 example_user example_db
      "\<lparr>auth_user = 7, body_duration = JNum 10\<rparr>" "\<lambda>n v. None" 1700086400000]
    by (simp add: example_user_def)
qed

text \<open>
  Claim C2. With \<open>diffDays\<close> the floor of the time elapsed since \<open>lastStudyDate\<close> divided by
  one day, an absent \<open>lastStudyDate\<close> counting as the epoch (which makes \<open>diffDays\<close> exceed 1
  for every clock reading from the third day after the epoch on), \<open>recordStudyTime\<close>
  adds 1 to the streak when \<open>diffDays\<close> is 1, sets the streak to 1 when \<open>diffDays\<close> exceeds 1
  and leaves it as it is when \<open>diffDays\<close> is 0; afterwards \<open>lastStudyDate\<close> is today.
\<close>

theorem streak_rule:
  fixes u :: user_doc and d today :: int
  defines "dd \<equiv> \<lfloor>real_of_int (today - (case lastStudyDate u of None \<Rightarrow> 0 | Some t \<Rightarrow> t))
                    / (1000 * 60 * 60 * 24)\<rfloor>"
  defines "u' \<equiv> fst (recordStudyTime u d today)"
  shows "(dd = 1 \<longrightarrow> streak (studyStats u') = streak (studyStats u) + 1) \<and>
         (dd > 1 \<longrightarrow> streak (studyStats u') = 1) \<and>
         (dd = 0 \<longrightarrow> streak (studyStats u') = streak (studyStats u)) \<and>
         (lastStudyDate u = None \<and> 2 * msPerDay \<le> today \<longrightarrow> dd > 1) \<and>
         lastStudyDate u' = Some today"
proof -
  have dd: "dd = diffDays today (lastStudyDate u)"
    unfolding dd_def by (rule diffDays_floor [symmetric])
  have "lastStudyDate u = None \<Longrightarrow> 2 * msPerDay \<le> today \<Longrightarrow> 1 < dd"
    unfolding dd by (simp add: diffDays_def msPerDay_def)
  then show ?thesis
    unfolding u'_def recordStudyTime_streak recordStudyTime_lastStudyDate
    by (simp add: dd update_streak_def)
qed


theorem streak_rule_witness:
  "streak (studyStats (fst (recordStudyTime example_user 10 1700086400000))) = 7 \<and>
   streak (studyStats (fst (recordStudyTime example_user 10 1700432000000))) = 1 \<and>
   streak (studyStats (fst (recordStudyTime example_user 10 1700000000000))) = 6 \<and>
   streak (studyStats (fst (recordStudyTime (example_user\<lparr>lastStudyDate := None\<rparr>) 10
     1700000000000))) = 1 \<and>
   lastStudyDate (fst (recordStudyTime example_user 10 1700086400000)) = Some 1700086400000"
  using streak_rule [of 1700086400000 example_user 10]
    streak_rule [of 1700432000000 example_user 10]
    streak_rule [of 1700000000000 example_user 10]
    streak_rule [of 1700000000000 "example_user\<lparr>lastStudyDate := None\<rparr>" 10]
  by (simp add: example_user_def msPerDay_def)





text \<open>
  Claim C4. From \<open>totalStudyTime\<close> 55, \<open>sessionsCompleted\<close> 9, streak 6, no achievement and a
  \<open>lastStudyDate\<close> one day before today, a duration of 10 gives 65, 10 and 7 and unlocks
  \<open>first-hour\<close>, \<open>week-streak\<close> and \<open>session-master\<close>, in this order. In general the newly
  unlocked identifiers are those of the thresholds that the values after the update meet
  and that were not stored before, each decided on its own, in the order of the checks.
\<close>

theorem achievements_scenario:
  "(studyStats u =
      \<lparr>totalStudyTime = 55, sessionsCompleted = 9, streak = 6, achievements = []\<rparr> \<and>
    lastStudyDate u = Some (today - msPerDay) \<longrightarrow>
      fst (recordStudyTime u 10 today) =
        u\<lparr>studyStats := \<lparr>totalStudyTime = 65, sessionsCompleted = 10, streak = 7,
                 achievements = [''first-hour'', ''week-streak'', ''session-master'']\<rparr>,
          lastStudyDate := Some today\<rparr> \<and>
      snd (recordStudyTime u 10 today) =
        [''first-hour'', ''week-streak'', ''session-master'']) \<and>
   snd (recordStudyTime v d t) =
     map fst (filter (\<lambda>(a, met). met \<and> a \<notin> set (achievements (studyStats v)))
       (thresholds (studyStats (fst (recordStudyTime v d t)))))"
proof -
  have dd: "diffDays today (Some (today - msPerDay)) = 1"
    by (simp add: diffDays_def msPerDay_def)
  have 1: "fst (recordStudyTime u 10 today) =
           u\<lparr>studyStats := \<lparr>totalStudyTime = 65, sessionsCompleted = 10, streak = 7,
                    achievements = [''first-hour'', ''week-streak'', ''session-master'']\<rparr>,
             lastStudyDate := Some today\<rparr>"
    and 2: "snd (recordStudyTime u 10 today) =
           [''first-hour'', ''week-streak'', ''session-master'']"
    if "studyStats u =
      \<lparr>totalStudyTime = 55, sessionsCompleted = 9, streak = 6, achievements = []\<rparr>"
      and "lastStudyDate u = Some (today - msPerDay)"
    using that
    by (simp_all add: recordStudyTime_def after_total_def Let_def dd update_streak_def
        check_achievements_def js_add_def round_small)
  have 3: "snd (recordStudyTime v d t) =
            map fst (filter (\<lambda>(a, met). met \<and> a \<notin> set (achievements (studyStats v)))
              (thresholds (studyStats (fst (recordStudyTime v d t)))))"
    by (simp add: recordStudyTime_def after_total_def Let_def check_achievements_def
        thresholds_def)
  from 1 2 3 show ?thesis by blast
qed

theorem achievements_scenario_witness:
  "studyStats example_user =
      \<lparr>totalStudyTime = 55, sessionsCompleted = 9, streak = 6, achievements = []\<rparr> \<and>
   lastStudyDate example_user = Some (1700086400000 - msPerDay) \<and>
   studyStats (fst (recordStudyTime example_user 10 1700086400000)) =
     \<lparr>totalStudyTime = 65, sessionsCompleted = 10, streak = 7,
      achievements = [''first-hour'', ''week-streak'', ''session-master'']\<rparr> \<and>
   snd (recordStudyTime example_user 10 1700086400000) =
     [''first-hour'', ''week-streak'', ''session-master'']"
  using achievements_scenario [of example_user 1700086400000 example_user 10 1700086400000]
  by (simp add: example_user_def msPerDay_def thresholds_def)

text \<open>
  Claim C5. An identifier that the stored achievements contain is not reported as newly
  unlocked and is not stored a second time; stored achievements without duplicates stay
  without duplicates; and an identifier reported by one call is not reported by the next
  call, nor by any later call.
\<close>

theorem unlocking_idempotent:
  fixes u :: user_doc and d1 t1 d2 t2 :: int
  defines "r1 \<equiv> recordStudyTime u d1 t1"
  defines "r2 \<equiv> recordStudyTime (fst r1) d2 t2"
  shows "(a \<in> set (achievements (studyStats u)) \<longrightarrow>
            a \<notin> set (snd r1) \<and>
            count_list (achievements (studyStats (fst r1))) a =
              count_list (achievements (studyStats u)) a) \<and>
         (distinct (achievements (studyStats u)) \<longrightarrow>
            distinct (achievements (studyStats (fst r1)))) \<and>
         (a \<in> set (snd r1) \<longrightarrow>
            a \<notin> set (snd r2) \<and>
            a \<notin> set (snd (recordStudyTime (run_calls (fst r1) cs) d2 t2)))"
proof -
  have A: "achievements (studyStats (fst r1)) = achievements (studyStats u) @ snd r1"
    unfolding r1_def by (rule recordStudyTime_achievements)
  have fresh1: "b \<in> set (achievements (studyStats u)) \<Longrightarrow> b \<notin> set (snd r1)" for b
    unfolding r1_def by (rule recordStudyTime_fresh)
  have fresh2: "b \<in> set (achievements (studyStats (fst r1))) \<Longrightarrow> b \<notin> set (snd r2)" for b
    unfolding r2_def by (rule recordStudyTime_fresh)
  have dist1: "distinct (snd r1)"
    unfolding r1_def recordStudyTime_new by (rule check_achievements_distinct)
  have "a \<in> set (achievements (studyStats u)) \<Longrightarrow>
      count_list (achievements (studyStats (fst r1))) a =
      count_list (achievements (studyStats u)) a"
    using fresh1 [of a] by (simp add: A count_list_0_iff)
  moreover have "distinct (achievements (studyStats u)) \<Longrightarrow>
      distinct (achievements (studyStats (fst r1)))"
    using fresh1 dist1 by (auto simp add: A)
  moreover have "a \<in> set (snd r1) \<Longrightarrow> a \<notin> set (snd r2)"
    using fresh2 [of a] by (simp add: A)
  moreover have "a \<in> set (snd r1) \<Longrightarrow>
      a \<notin> set (snd (recordStudyTime (run_calls (fst r1) cs) d2 t2))"
  proof -
    assume "a \<in> set (snd r1)"
    then have "a \<in> set (achievements (studyStats (fst r1)))" by (simp add: A)
    then have "a \<in> set (achievements (studyStats (run_calls (fst r1) cs)))"
      by (rule run_calls_keeps)
    then show ?thesis by (rule recordStudyTime_fresh)
  qed
  ultimately show ?thesis
    using fresh1 [of a] by blast
qed

theorem unlocking_idempotent_witness:
  "snd (recordStudyTime example_user 10 1700086400000) =
     [''first-hour'', ''week-streak'', ''session-master''] \<and>
   snd (recordStudyTime (fst (recordStudyTime example_user 10 1700086400000)) 25 1700172800000)
     = [] \<and>
   achievements (studyStats (fst (recordStudyTime
       (fst (recordStudyTime example_user 10 1700086400000)) 25 1700172800000))) =
     [''first-hour'', ''week-streak'', ''session-master'']"
  using unlocking_idempotent [of "''first-hour''" example_user 10 1700086400000 25 1700172800000 "[]"]
  by (simp add: example_user_def recordStudyTime_def after_total_def check_achievements_def
      update_streak_def diffDays_def msPerDay_def Let_def js_add_def round_small)

section \<open>The claims about the failures of POST /study-time\<close>

text \<open>
  Claim C6 expects the validation errors, and an unchanged store, for every duration that is
  missing, is not a number or is less than 1. An array is not a number, but the validation
  checks its items, not the array: the empty array and an array of integers of at least 1
  pass, the answer is never the validation errors, and when the user exists and the field
  can be saved the document is written with one more completed session.
\<close>

theorem array_duration_accepted:
  assumes "body_duration req = JArr vs" and "list_all (item_ok 1) vs"
  shows "invalid_duration (body_duration req) \<and>
         fst (study_time assignOther db req now) \<noteq> Inl ValidationErrors \<and>
         (users db (auth_user req) = Some u \<and>
          assignOther (totalStudyTime (studyStats u)) (JArr vs) = Some t \<longrightarrow>
            study_time assignOther db req now =
              (Inr (studyStats (fst (after_total u t now)), snd (after_total u t now)),
               db\<lparr>users := (users db)(auth_user req \<mapsto> fst (after_total u t now))\<rparr>) \<and>
            sessionsCompleted (studyStats (fst (after_total u t now))) =
              sessionsCompleted (studyStats u) + 1)"
proof -
  have v: "isInt 1 (body_duration req)"
    using assms by (simp add: isInt_array)
  have 1: "invalid_duration (body_duration req)"
    by (simp add: assms(1) invalid_duration_def)
  have 2: "fst (study_time assignOther db req now) \<noteq> Inl ValidationErrors"
    using v by (simp add: study_time_def split: option.splits prod.splits)
  have 3: "study_time assignOther db req now =
      (Inr (studyStats (fst (after_total u t now)), snd (after_total u t now)),
       db\<lparr>users := (users db)(auth_user req \<mapsto> fst (after_total u t now))\<rparr>)"
    if "users db (auth_user req) = Some u"
      and "assignOther (totalStudyTime (studyStats u)) (JArr vs) = Some t"
    using v that by (simp add: study_time_def add_assign_def assms(1) split: prod.splits)
  have 4: "sessionsCompleted (studyStats (fst (after_total u t now))) =
      sessionsCompleted (studyStats u) + 1"
    by (simp add: after_total_def Let_def)
  from 1 2 3 4 show ?thesis by blast
qed

theorem array_duration_accepted_witness:
  "invalid_duration (JArr []) \<and> invalid_duration (JArr [JNum 5]) \<and>
   fst (study_time (\<lambda>n v. Some n) example_db \<lparr>auth_user = 7, body_duration = JArr [JNum 5]\<rparr>
     1700086400000) \<noteq> Inl ValidationErrors \<and>
   study_time (\<lambda>n v. Some n) example_db \<lparr>auth_user = 7, body_duration = JArr []\<rparr> 1700086400000 =
     (Inr (\<lparr>totalStudyTime = 55, sessionsCompleted = 10, streak = 7,
            achievements = [''week-streak'', ''session-master'']\<rparr>,
           [''week-streak'', ''session-master'']),
      example_db\<lparr>users := [7 \<mapsto>
        \<lparr>studyStats = \<lparr>totalStudyTime = 55, sessionsCompleted = 10, streak = 7,
            achievements = [''week-streak'', ''session-master'']\<rparr>,
         lastStudyDate = Some 1700086400000\<rparr>]\<rparr>)"
proof -
  have a: "list_all (item_ok 1) []" "list_all (item_ok 1) [JNum 5]"
    by (simp_all add: item_ok_def validator_int_def)
  have u: "users example_db 7 = Some example_user"
    by (rule example_lookup)
  have e: "(\<lambda>n v. Some n) (totalStudyTime (studyStats example_user)) (JArr []) = Some 55"
    by (simp add: example_user_def)
  show ?thesis
    using array_duration_accepted [of "\<lparr>auth_user = 7, body_duration = JArr []\<rparr>" "[]"
        "\<lambda>n v. Some n" example_db 1700086400000 example_user 55, OF _ a(1)]
      array_duration_accepted [of "\<lparr>auth_user = 7, body_duration = JArr [JNum 5]\<rparr>" "[JNum 5]"
        "\<lambda>n v. Some n" example_db 1700086400000 example_user 55, OF _ a(2)]
      u e
    by (simp add: after_total_def Let_def example_user_def example_db_def update_streak_def
        diffDays_def msPerDay_def check_achievements_def)
qed

text \<open>
  Claim C7 expects the answer \<open>UserNotFound\<close> for a user without a document. The handler
  has no such check: for a valid request it answers with the server error of status 500,
  where the handler of the profile route answers \<open>UserNotFound\<close>. The stored state is
  unchanged.
\<close>

theorem missing_user_server_error:
  assumes "isInt 1 (body_duration req)" and "users db (auth_user req) = None"
  shows "study_time assignOther db req now =
           (Inl (ServerError ''Server error updating study time''), db) \<and>
         get_profile db (auth_user req) = Inl UserNotFound"
  using assms by (simp add: study_time_def get_profile_def)

theorem missing_user_server_error_witness:
  "isInt 1 (JNum 10) \<and> users example_db 8 = None \<and>
   study_time (\<lambda>n v. None) example_db \<lparr>auth_user = 8, body_duration = JNum 10\<rparr> 1700086400000 =
     (Inl (ServerError ''Server error updating study time''), example_db) \<and>
   fst (study_time (\<lambda>n v. None) example_db \<lparr>auth_user = 8, body_duration = JNum 10\<rparr>
     1700086400000) \<noteq> Inl UserNotFound"
  using missing_user_server_error [of "\<lparr>auth_user = 8, body_duration = JNum 10\<rparr>" example_db
      "\<lambda>n v. None" 1700086400000]
  by (simp add: example_db_def isInt_scalar)

section \<open>Properties of the handler of GET /dashboard\<close>

lemma foldl_add_sum_list:
  "foldl (\<lambda>total x. total + f x) a xs = a + sum_list (map f xs)" for a :: int
  by (induction xs arbitrary: a) simp_all

lemma progress_sum_list: "progress uid ss = sum_list (map (participant_minutes uid) ss)"
  by (simp add: progress_def foldl_add_sum_list)

lemma dashboard_Some:
  assumes "users db uid = Some u"
  shows "dashboard tz db uid now =
     Inr \<lparr>recentGroups = map format_group (find_recent_groups (groups db) uid),
          upcomingSessions = map format_session (find_upcoming_sessions (sessions db) uid now),
          stats = \<lparr>ds_totalStudyTime = totalStudyTime (studyStats u),
                   ds_sessionsCompleted = sessionsCompleted (studyStats u),
                   ds_currentStreak = streak (studyStats u),
                   ds_achievements = achievements (studyStats u)\<rparr>,
          todayProgress = progress uid
            (find_completed (sessions db) uid (today_start tz now) (tomorrow_start tz now)),
          weekProgress = progress uid
            (find_completed (sessions db) uid (week_start tz now) (week_end tz now)),
          weeklyGoal = 300\<rparr>"
  using assms by (simp add: dashboard_def Let_def)

lemma scenario_windows:
  "today_start utc 1700000000000 = 1699920000000"
  "tomorrow_start utc 1700000000000 = 1700006400000"
  "week_start utc 1700000000000 = 1699747200000"
  "week_end utc 1700000000000 = 1700352000000"
  by (simp_all add: today_start_def tomorrow_start_def week_start_def week_end_def
      startOfDay_def addDays_def getDay_def msPerDay_def to_utc_def local_time_def
      offset_at_def utc_def)

text \<open>Noon of Sunday 5 November 2023 in New York: the day lasts 25 hours.\<close>

lemma new_york_windows:
  "today_start new_york 1699203600000 = 1699156800000"
  "tomorrow_start new_york 1699203600000 = 1699246800000"
  "week_start new_york 1699203600000 = 1699156800000"
  "week_end new_york 1699203600000 = 1699765200000"
  by (simp_all add: today_start_def tomorrow_start_def week_start_def week_end_def
      startOfDay_def addDays_def getDay_def msPerDay_def to_utc_def local_time_def
      offset_at_def new_york_def)

lemma scenario_dashboard:
  "dashboard utc scenario_db 7 1700000000000 =
     Inr \<lparr>recentGroups = [], upcomingSessions = [],
          stats = \<lparr>ds_totalStudyTime = 55, ds_sessionsCompleted = 9, ds_currentStreak = 6,
                   ds_achievements = []\<rparr>,
          todayProgress = 35, weekProgress = 65, weeklyGoal = 300\<rparr>"
proof -
  have "users scenario_db 7 = Some example_user"
    by (simp add: scenario_db_def)
  then show ?thesis
    unfolding dashboard_Some [OF \<open>users scenario_db 7 = Some example_user\<close>]
    by (simp add: scenario_windows scenario_db_def find_completed_def completed_session_def
        is_participant_def in_window_def progress_def participant_minutes_def
        find_recent_groups_def find_upcoming_sessions_def example_user_def)
qed

text \<open>
  The conversions between instants and local times: from an instant to its local time and
  back never leads to a later instant; from a local time to its instant and back leads to
  the same local time or, for a local time that the clocks skip, to the one after the gap;
  and two local times that are at least the size of the change apart keep their order.
\<close>

lemma to_utc_local: "to_utc z (local_time z t) \<le> t"
  by (simp add: to_utc_def local_time_def offset_at_def)

lemma local_to_utc_cases:
  "local_time z (to_utc z l) = l \<or>
   (off_before z < off_after z \<and> local_time z (to_utc z l) = l + (off_after z - off_before z))"
  by (simp add: to_utc_def local_time_def offset_at_def)

lemma to_utc_mono:
  assumes "l1 + \<bar>off_after z - off_before z\<bar> \<le> l2"
  shows "to_utc z l1 \<le> to_utc z l2"
  using assms by (auto simp add: to_utc_def)

lemma getDay_range: "0 \<le> getDay z t \<and> getDay z t \<le> 6"
  by (simp add: getDay_def)

lemma week_contains_today:
  assumes "\<bar>off_after tz - off_before tz\<bar> \<le> msPerDay"
  shows "week_start tz now \<le> today_start tz now \<and> tomorrow_start tz now \<le> week_end tz now"
proof -
  define g where "g = \<bar>off_after tz - off_before tz\<bar>"
  define t where "t = today_start tz now"
  define lt where "lt = local_time tz t"
  define k where "k = getDay tz t"
  define w where "w = week_start tz now"
  define lw where "lw = local_time tz w"
  have D: "0 < msPerDay" by (simp add: msPerDay_def)
  have g: "0 \<le> g" "g \<le> msPerDay"
    using assms by (simp_all add: g_def)
  have k: "0 \<le> k" "k \<le> 6"
    using getDay_range [of tz t] by (simp_all add: k_def)
  have w: "w = to_utc tz (lt - k * msPerDay)"
    by (simp add: w_def week_start_def addDays_def t_def [symmetric] lt_def k_def)
  have tom: "tomorrow_start tz now = to_utc tz (lt + msPerDay)"
    by (simp add: tomorrow_start_def addDays_def t_def [symmetric] lt_def)
  have we: "week_end tz now = to_utc tz (lw + 7 * msPerDay)"
    by (simp add: week_end_def addDays_def w_def [symmetric] lw_def)
  have first: "w \<le> t"
  proof (cases "k = 0")
    case True
    then show ?thesis
      using to_utc_local [of tz t] by (simp add: w lt_def)
  next
    case False
    with k have "1 \<le> k" by simp
    then have "msPerDay \<le> k * msPerDay"
      using D by simp
    with g have "(lt - k * msPerDay) + g \<le> lt" by simp
    then have "to_utc tz (lt - k * msPerDay) \<le> to_utc tz lt"
      unfolding g_def by (rule to_utc_mono)
    also have "\<dots> \<le> t"
      unfolding lt_def by (rule to_utc_local)
    finally show ?thesis by (simp add: w)
  qed
  have lw: "lw = lt - k * msPerDay \<or> (0 < g \<and> lw = lt - k * msPerDay + g)"
    using local_to_utc_cases [of tz "lt - k * msPerDay"]
    by (auto simp add: lw_def w g_def)
  have second: "to_utc tz (lt + msPerDay) \<le> to_utc tz (lw + 7 * msPerDay)"
  proof (cases "k = 6 \<and> lw = lt - k * msPerDay")
    case True
    then have "lw + 7 * msPerDay = lt + msPerDay" by auto
    then show ?thesis by (simp only: order_refl)
  next
    case False
    have "(6 - k) * msPerDay \<ge> 0"
      using k D by simp
    have "lt + msPerDay + g \<le> lw + 7 * msPerDay"
    proof (cases "k = 6")
      case True
      with False lw have "lw = lt - k * msPerDay + g" by blast
      with True show ?thesis by simp
    next
      case False
      with k have "k \<le> 5" by simp
      then have "k * msPerDay \<le> 5 * msPerDay"
        using D by simp
      moreover from lw g have "lt - k * msPerDay \<le> lw" by auto
      ultimately show ?thesis using g by simp
    qed
    then show ?thesis
      unfolding g_def by (rule to_utc_mono)
  qed
  from first second show ?thesis
    by (simp add: tom we w_def [symmetric] t_def [symmetric])
qed

lemma in_window_mono:
  "in_window e lo hi \<Longrightarrow> lo' \<le> lo \<Longrightarrow> hi \<le> hi' \<Longrightarrow> in_window e lo' hi'"
  by (auto simp add: in_window_def split: option.splits)

lemma sum_list_filter_mono:
  fixes f :: "'a \<Rightarrow> int"
  assumes "\<And>x. x \<in> set xs \<Longrightarrow> P x \<Longrightarrow> Q x" and "\<And>x. x \<in> set xs \<Longrightarrow> 0 \<le> f x"
  shows "sum_list (map f (filter P xs)) \<le> sum_list (map f (filter Q xs))"
  using assms
proof (induction xs)
  case Nil
  then show ?case by simp
next
  case (Cons x xs)
  have IH: "sum_list (map f (filter P xs)) \<le> sum_list (map f (filter Q xs))"
    by (rule Cons.IH) (simp_all add: Cons.prems)
  have "0 \<le> f x" by (simp add: Cons.prems)
  moreover have "P x \<Longrightarrow> Q x" by (simp add: Cons.prems)
  ultimately show ?case using IH by auto
qed

lemma participant_minutes_nonneg:
  assumes "\<And>p m. p \<in> set (participants s) \<Longrightarrow> duration p = Some m \<Longrightarrow> 0 \<le> m"
  shows "0 \<le> participant_minutes uid s"
proof (cases "find (\<lambda>p. user p = uid) (participants s)")
  case None
  then show ?thesis by (simp add: participant_minutes_def)
next
  case (Some p)
  then have "p \<in> set (participants s)"
    by (auto simp add: find_Some_iff)
  with assms [of p] Some show ?thesis
    by (simp add: participant_minutes_def split: option.splits)
qed

section \<open>The claims about the dashboard\<close>

text \<open>
  Claim C8. For a user whose four queries (recent groups, upcoming sessions, sessions
  completed today, sessions completed this week) find nothing, the handler of
  \<^verbatim>\<open>GET /dashboard\<close> answers with a dashboard, not an error: \<open>recentGroups\<close> and
  \<open>upcomingSessions\<close> are empty and \<open>todayProgress\<close> and \<open>weekProgress\<close> are 0.
\<close>

theorem empty_dashboard:
  assumes "users db uid = Some u"
    and "find_recent_groups (groups db) uid = []"
    and "find_upcoming_sessions (sessions db) uid now = []"
    and "find_completed (sessions db) uid (today_start tz now) (tomorrow_start tz now) = []"
    and "find_completed (sessions db) uid (week_start tz now) (week_end tz now) = []"
  shows "\<exists>d. dashboard tz db uid now = Inr d \<and> recentGroups d = [] \<and>
           upcomingSessions d = [] \<and> todayProgress d = 0 \<and> weekProgress d = 0"
  by (simp add: dashboard_Some [OF assms(1)] assms(2-5) progress_def)

theorem empty_dashboard_witness:
  "dashboard utc example_db 7 1700000000000 =
     Inr \<lparr>recentGroups = [], upcomingSessions = [],
          stats = \<lparr>ds_totalStudyTime = 55, ds_sessionsCompleted = 9, ds_currentStreak = 6,
                   ds_achievements = []\<rparr>,
          todayProgress = 0, weekProgress = 0, weeklyGoal = 300\<rparr>"
proof -
  have "users example_db 7 = Some example_user"
    by (rule example_lookup)
  moreover have "find_recent_groups (groups example_db) 7 = []"
    "find_upcoming_sessions (sessions example_db) 7 1700000000000 = []"
    "find_completed (sessions example_db) 7 (today_start utc 1700000000000)
       (tomorrow_start utc 1700000000000) = []"
    "find_completed (sessions example_db) 7 (week_start utc 1700000000000)
       (week_end utc 1700000000000) = []"
    by (simp_all add: example_db_def find_recent_groups_def find_upcoming_sessions_def
        find_completed_def)
  ultimately show ?thesis
    using empty_dashboard [of example_db 7 example_user 1700000000000 utc]
    by (auto simp add: dashboard_Some example_user_def)
qed



text \<open>
  Claim C10. For a zone whose offset changes by at most one day, the window of the day lies
  within the window of the week computed from the same clock reading, so the query of the
  week returns every session that the query of the day returns, and with durations that are
  not negative \<open>todayProgress\<close> is at most \<open>weekProgress\<close>.
\<close>

theorem today_within_week:
  assumes "\<bar>off_after tz - off_before tz\<bar> \<le> msPerDay"
    and "users db uid = Some u"
    and "\<forall>s \<in> set (sessions db). \<forall>p \<in> set (participants s). \<forall>m. duration p = Some m \<longrightarrow> 0 \<le> m"
  shows "week_start tz now \<le> today_start tz now \<and> tomorrow_start tz now \<le> week_end tz now \<and>
         set (find_completed (sessions db) uid (today_start tz now) (tomorrow_start tz now)) \<subseteq>
           set (find_completed (sessions db) uid (week_start tz now) (week_end tz now)) \<and>
         (\<exists>d. dashboard tz db uid now = Inr d \<and> todayProgress d \<le> weekProgress d)"
proof -
  note w = week_contains_today [OF assms(1), of now]
  have sub: "set (find_completed (sessions db) uid (today_start tz now) (tomorrow_start tz now))
      \<subseteq> set (find_completed (sessions db) uid (week_start tz now) (week_end tz now))"
    using w by (auto simp add: find_completed_def intro: in_window_mono)
  have nonneg: "0 \<le> participant_minutes uid s" if "s \<in> set (sessions db)" for s
    using assms(3) that by (intro participant_minutes_nonneg) blast
  have "sum_list (map (participant_minutes uid)
          (find_completed (sessions db) uid (today_start tz now) (tomorrow_start tz now)))
      \<le> sum_list (map (participant_minutes uid)
          (find_completed (sessions db) uid (week_start tz now) (week_end tz now)))"
    unfolding find_completed_def
  proof (rule sum_list_filter_mono)
    fix s
    assume "s \<in> set (sessions db)"
    then show "0 \<le> participant_minutes uid s" by (rule nonneg)
  next
    fix s
    assume "is_participant uid s \<and>
      in_window (actualEnd s) (today_start tz now) (tomorrow_start tz now) \<and>
      status s = ''completed''"
    with w show "is_participant uid s \<and>
      in_window (actualEnd s) (week_start tz now) (week_end tz now) \<and>
      status s = ''completed''"
      by (auto intro: in_window_mono)
  qed
  then have "\<exists>d. dashboard tz db uid now = Inr d \<and> todayProgress d \<le> weekProgress d"
    by (simp add: dashboard_Some [OF assms(2)] progress_sum_list)
  with w sub show ?thesis by blast
qed

theorem today_within_week_witness:
  "today_start new_york 1699203600000 = 1699156800000 \<and>
   tomorrow_start new_york 1699203600000 = 1699156800000 + 25 * 3600000 \<and>
   week_start new_york 1699203600000 \<le> today_start new_york 1699203600000 \<and>
   tomorrow_start new_york 1699203600000 \<le> week_end new_york 1699203600000 \<and>
   (\<exists>d. dashboard new_york scenario_db 7 1699203600000 = Inr d \<and>
      todayProgress d \<le> weekProgress d) \<and>
   (\<exists>d. dashboard utc scenario_db 7 1700000000000 = Inr d \<and>
      todayProgress d = 35 \<and> weekProgress d = 65)"
proof -
  have z: "\<bar>off_after new_york - off_before new_york\<bar> \<le> msPerDay"
    "\<bar>off_after utc - off_before utc\<bar> \<le> msPerDay"
    by (simp_all add: new_york_def utc_def msPerDay_def)
  have 1: "users scenario_db 7 = Some example_user"
    by (simp add: scenario_db_def)
  have 2: "\<forall>s \<in> set (sessions scenario_db). \<forall>p \<in> set (participants s).
      \<forall>m. duration p = Some m \<longrightarrow> 0 \<le> m"
    by (simp add: scenario_db_def completed_session_def)
  from today_within_week [OF z(1) 1 2, of 1699203600000]
    today_within_week [OF z(2) 1 2, of 1700000000000]
  show ?thesis
    by (simp add: scenario_dashboard new_york_windows)
qed

end
